theory Spec2Isabelle
  imports Complex_Main
begin

section \<open>Numbers of the analysis\<close>

text \<open>
  Every number that \<open>analyze_team_communication\<close> handles is a Python or numpy float.
  The model keeps the one non-finite value the pipeline can produce, \<open>NaN\<close>, and takes
  finite values as real numbers. The raw statistics and the three scores are computed
  in exact arithmetic, their decimal literals (\<open>0.2\<close>, \<open>-0.1\<close>, \<open>5\<close>, ...) being the
  corresponding rationals, so the binary rounding error of float64 is outside the model
  there. The weighted total of lines 45 to 47 is computed as the source does, in
  binary64, operation by operation (see \<open>f64\<close> below): the decimal to which it is
  rounded depends on the binary sum.
\<close>

datatype pyfloat = NaN | Fin real

text \<open>Comparisons with \<open>NaN\<close> are false, as in IEEE 754.\<close>

fun fl_lt :: "pyfloat \<Rightarrow> pyfloat \<Rightarrow> bool" where
  "fl_lt (Fin a) (Fin b) = (a < b)"
| "fl_lt _ _ = False"

fun fl_gt :: "pyfloat \<Rightarrow> pyfloat \<Rightarrow> bool" where
  "fl_gt (Fin a) (Fin b) = (b < a)"
| "fl_gt _ _ = False"

text \<open>Arithmetic propagates \<open>NaN\<close>.\<close>

fun fl_add :: "pyfloat \<Rightarrow> pyfloat \<Rightarrow> pyfloat" where
  "fl_add (Fin a) (Fin b) = Fin (a + b)"
| "fl_add _ _ = NaN"

fun fl_sub :: "pyfloat \<Rightarrow> pyfloat \<Rightarrow> pyfloat" where
  "fl_sub (Fin a) (Fin b) = Fin (a - b)"
| "fl_sub _ _ = NaN"

fun fl_mul :: "pyfloat \<Rightarrow> pyfloat \<Rightarrow> pyfloat" where
  "fl_mul (Fin a) (Fin b) = Fin (a * b)"
| "fl_mul _ _ = NaN"

text \<open>
  Python's builtin \<open>max(a, b)\<close> starts from \<open>a\<close> and moves to \<open>b\<close> only when \<open>b > a\<close>;
  \<open>min(a, b)\<close> moves to \<open>b\<close> only when \<open>b < a\<close>. With a \<open>NaN\<close> second argument the
  comparison is false and the first argument is returned.
\<close>

definition py_max :: "pyfloat \<Rightarrow> pyfloat \<Rightarrow> pyfloat" where
  "py_max a b = (if fl_gt b a then b else a)"

definition py_min :: "pyfloat \<Rightarrow> pyfloat \<Rightarrow> pyfloat" where
  "py_min a b = (if fl_lt b a then b else a)"

text \<open>\<open>round(x, n)\<close>: to the nearest multiple of \<open>10^-n\<close>, ties to the even one.\<close>

definition round_half_even :: "real \<Rightarrow> int" where
  "round_half_even x =
     (let f = \<lfloor>x\<rfloor>; d = x - of_int f
      in if d < 1 / 2 then f
         else if 1 / 2 < d then f + 1
         else if even f then f else f + 1)"

definition py_round :: "real \<Rightarrow> nat \<Rightarrow> real" where
  "py_round x n = of_int (round_half_even (x * 10 ^ n)) / 10 ^ n"

fun fl_round :: "pyfloat \<Rightarrow> nat \<Rightarrow> pyfloat" where
  "fl_round (Fin x) n = Fin (py_round x n)"
| "fl_round NaN n = NaN"

text \<open>
  Binary64. \<open>bit_length\<close> is the number of binary digits of a natural number;
  \<open>binade x\<close> is the exponent \<open>e\<close> with \<open>2^e \<le> |x| < 2^(e+1)\<close>; \<open>f64 x\<close> is the
  double nearest to \<open>x\<close>: \<open>x\<close> rounded to 53 significant bits, ties to the even
  significand. Overflow and subnormal numbers are left out (the values here stay
  between \<open>2^-1022\<close> and \<open>2^1024\<close>). An IEEE operation on doubles is \<open>f64\<close> of the exact
  result, and a decimal literal of the source is \<open>f64\<close> of the decimal.
\<close>

fun bit_length :: "nat \<Rightarrow> nat" where
  "bit_length n = (if n = 0 then 0 else Suc (bit_length (n div 2)))"

declare bit_length.simps [simp del]

definition binade :: "real \<Rightarrow> int" where
  "binade x =
     (if 1 \<le> \<bar>x\<bar> then int (bit_length (nat \<lfloor>\<bar>x\<bar>\<rfloor>)) - 1
      else - int (bit_length (nat (\<lceil>1 / \<bar>x\<bar>\<rceil> - 1))))"

definition f64 :: "real \<Rightarrow> real" where
  "f64 x =
     (if x = 0 then 0
      else let ulp = 2 powi (binade x - 52)
           in of_int (round_half_even (x / ulp)) * ulp)"

fun f64_add :: "pyfloat \<Rightarrow> pyfloat \<Rightarrow> pyfloat" where
  "f64_add (Fin a) (Fin b) = Fin (f64 (a + b))"
| "f64_add _ _ = NaN"

fun f64_mul :: "pyfloat \<Rightarrow> pyfloat \<Rightarrow> pyfloat" where
  "f64_mul (Fin a) (Fin b) = Fin (f64 (a * b))"
| "f64_mul _ _ = NaN"

text \<open>
  \<open>round(x, n)\<close> on a numpy float64, as numpy computes it: multiply by \<open>10^n\<close>, round
  to the nearest integer (ties to even), divide by \<open>10^n\<close>, each step in binary64. (When
  all three scores are the Python integers 0 or 100, the sum is a Python float, one of
  0, 30, 40, 60, 70 and 100, which either \<open>round\<close> leaves as it is.)
\<close>

definition np_round :: "real \<Rightarrow> nat \<Rightarrow> real" where
  "np_round x n = f64 (of_int (round_half_even (f64 (x * 10 ^ n))) / 10 ^ n)"

fun fl_np_round :: "pyfloat \<Rightarrow> nat \<Rightarrow> pyfloat" where
  "fl_np_round (Fin x) n = Fin (np_round x n)"
| "fl_np_round NaN n = NaN"

text \<open>\<open>Series.mean()\<close>: \<open>NaN\<close> on an empty series.\<close>

definition mean :: "real list \<Rightarrow> pyfloat" where
  "mean xs = (if xs = [] then NaN else Fin (sum_list xs / real (length xs)))"

text \<open>
  \<open>Series.std()\<close> with pandas' default \<open>ddof = 1\<close>: the sample standard deviation,
  \<open>NaN\<close> when the series has fewer than two entries.
\<close>

definition std :: "real list \<Rightarrow> pyfloat" where
  "std xs =
     (let n = length xs
      in if n \<le> 1 then NaN
         else let m = sum_list xs / real n
              in Fin (sqrt (sum_list (map (\<lambda>x. (x - m)\<^sup>2) xs) / real (n - 1))))"

section \<open>The cleaned data frame\<close>

text \<open>
  One row of the frame after \<open>dropna(subset=['message'])\<close> and \<open>pd.to_datetime\<close>:
  \<open>date\<close> is a pandas timestamp, nanoseconds since the epoch; the member and the
  message are present in every row (the column \<open>member\<close> of the source is \<open>member_id\<close>
  here).
\<close>

record message_record =
  date :: int
  channel :: string
  member_id :: string
  message :: string

definition ns_per_day :: int where
  "ns_per_day = 86400000000000"

section \<open>Activity frequency\<close>

text \<open>
  \<open>df.set_index('date').resample('D').size()\<close>: one bin per day, from the day of the
  earliest timestamp to the day of the latest one; the bin of day \<open>d\<close> holds the rows
  with \<open>d * ns_per_day \<le> date < (d + 1) * ns_per_day\<close>.
\<close>

definition resample_D_size :: "message_record list \<Rightarrow> nat list" where
  "resample_D_size df =
     (case df of
        [] \<Rightarrow> []
      | r # rs \<Rightarrow>
          let first = fold min (map date rs) (date r);
              last = fold max (map date rs) (date r);
              lo = first div ns_per_day;
              hi = last div ns_per_day
          in map (\<lambda>d. length (filter (\<lambda>x. d * ns_per_day \<le> date x
                                           \<and> date x < (d + 1) * ns_per_day) df))
                 [lo..hi])"

definition avg_daily_messages :: "message_record list \<Rightarrow> pyfloat" where
  "avg_daily_messages df = fl_round (mean (map real (resample_D_size df))) 1"

section \<open>Sentiment\<close>

text \<open>
  The polarity capability (\<open>TextBlob(str(text)).sentiment.polarity\<close>) is a parameter:
  it returns a polarity or raises (\<open>Inl\<close>). \<open>get_sentiment\<close> is the source's wrapper
  with its bare \<open>except\<close>; \<open>apply_series\<close> is \<open>Series.apply\<close>, which would let an
  exception of the applied function escape.
\<close>

definition get_sentiment :: "(string \<Rightarrow> 'e + real) \<Rightarrow> string \<Rightarrow> 'e + real" where
  "get_sentiment textblob text =
     (case textblob text of Inr p \<Rightarrow> Inr p | Inl e \<Rightarrow> Inr 0)"

fun apply_series :: "('a \<Rightarrow> 'e + 'b) \<Rightarrow> 'a list \<Rightarrow> 'e + 'b list" where
  "apply_series f [] = Inr []"
| "apply_series f (x # xs) =
     (case f x of
        Inl e \<Rightarrow> Inl e
      | Inr y \<Rightarrow> (case apply_series f xs of Inl e \<Rightarrow> Inl e | Inr ys \<Rightarrow> Inr (y # ys)))"

definition avg_sentiment :: "real list \<Rightarrow> pyfloat" where
  "avg_sentiment sentiments = fl_round (mean sentiments) 2"

section \<open>Participation balance\<close>

text \<open>
  \<open>df['member'].value_counts(normalize=True)\<close>: one entry per distinct value of the
  column with its share of the rows, largest share first (values in order of first
  appearance before the stable sort).
\<close>

definition distinct_values :: "'a list \<Rightarrow> 'a list" where
  "distinct_values xs = rev (remdups (rev xs))"

definition value_counts_normalized :: "string list \<Rightarrow> (string \<times> real) list" where
  "value_counts_normalized col =
     sort_key (\<lambda>(m, share). - share)
       (map (\<lambda>m. (m, real (count_list col m) / real (length col))) (distinct_values col))"

definition participation :: "message_record list \<Rightarrow> real list" where
  "participation df = map snd (value_counts_normalized (map member_id df))"

definition participation_std :: "message_record list \<Rightarrow> pyfloat" where
  "participation_std df = std (participation df)"

definition participation_balance :: "message_record list \<Rightarrow> pyfloat" where
  "participation_balance df =
     fl_round (fl_mul (fl_sub (Fin 1) (participation_std df)) (Fin 100)) 1"

section \<open>Scores\<close>

definition communication_score :: "pyfloat \<Rightarrow> pyfloat" where
  "communication_score avg_daily =
     py_min (Fin 100) (py_max (Fin 0) (fl_mul avg_daily (Fin 2)))"

definition sentiment_score :: "pyfloat \<Rightarrow> pyfloat" where
  "sentiment_score avg_sent =
     py_min (Fin 100) (py_max (Fin 0) (fl_mul (fl_add avg_sent (Fin 1)) (Fin 50)))"

definition balance_score :: "pyfloat \<Rightarrow> pyfloat" where
  "balance_score balance_pct = py_min (Fin 100) (py_max (Fin 0) balance_pct)"

text \<open>
  \<open>round(communication_score * 0.4 + sentiment_score * 0.3 + balance_score * 0.3, 1)\<close>,
  in binary64: three products, two sums from left to right, then the rounding.
\<close>

definition weighted_total :: "pyfloat \<Rightarrow> pyfloat \<Rightarrow> pyfloat \<Rightarrow> pyfloat" where
  "weighted_total c s b =
     fl_np_round (f64_add (f64_add (f64_mul c (Fin (f64 (4 / 10))))
                                   (f64_mul s (Fin (f64 (3 / 10)))))
                          (f64_mul b (Fin (f64 (3 / 10))))) 1"

section \<open>Recommendations and labels\<close>

text \<open>
  The four advisory strings of the source, in its order:
  \<^item> \<open>LowFrequency\<close>: low communication frequency, introduce daily 15-minute stand-ups;
  \<^item> \<open>FlatTone\<close>: neutral or negative tone, start meetings with positive moments;
  \<^item> \<open>UnevenParticipation\<close>: uneven participation, rotate the meeting facilitator;
  \<^item> \<open>AllGood\<close>: excellent balance, keep going.
\<close>

datatype advice = LowFrequency | FlatTone | UnevenParticipation | AllGood

definition generate_recommendations :: "pyfloat \<Rightarrow> pyfloat \<Rightarrow> pyfloat \<Rightarrow> advice list" where
  "generate_recommendations avg_daily avg_sent part_std =
     (let r0 = [];
          r1 = (if fl_lt avg_daily (Fin 5) then r0 @ [LowFrequency] else r0);
          r2 = (if fl_lt avg_sent (Fin (1 / 10)) then r1 @ [FlatTone] else r1);
          r3 = (if fl_gt part_std (Fin (3 / 10)) then r2 @ [UnevenParticipation] else r2)
      in if r3 = [] then r3 @ [AllGood] else r3)"

text \<open>The three tone labels of the source: positive, neutral, negative.\<close>

datatype tone = Positive | Neutral | Negative

definition sentiment_label :: "pyfloat \<Rightarrow> tone" where
  "sentiment_label avg_sent =
     (if fl_gt avg_sent (Fin (2 / 10)) then Positive
      else if fl_gt avg_sent (Fin (- 1 / 10)) then Neutral
      else Negative)"

section \<open>The report\<close>

text \<open>
  The labels of the activity and balance metrics are the formatted values
  (\<open>"<value> messages/day"\<close>, \<open>"<value>% balance"\<close>); the model keeps the value formatted.
\<close>

datatype label = MessagesPerDay pyfloat | ToneLabel tone | PercentBalance pyfloat

record metric =
  metric_value :: pyfloat
  metric_score :: pyfloat
  metric_label :: label

record metrics_rec =
  communication :: metric
  sentiment :: metric
  balance :: metric

record report =
  total_score :: pyfloat
  metrics :: metrics_rec
  recommendations :: "advice list"
  report_date :: string

text \<open>Lines 21 to 83 of the source, once the sentiment column is there.\<close>

definition build_report :: "string \<Rightarrow> message_record list \<Rightarrow> real list \<Rightarrow> report" where
  "build_report today df sentiments =
     (let avg_daily = avg_daily_messages df;
          avg_sent = avg_sentiment sentiments;
          balance_pct = participation_balance df;
          c_score = communication_score avg_daily;
          s_score = sentiment_score avg_sent;
          b_score = balance_score balance_pct;
          total = weighted_total c_score s_score b_score;
          recs = generate_recommendations avg_daily avg_sent (participation_std df)
      in \<lparr> total_score = total,
           metrics = \<lparr> communication =
                         \<lparr> metric_value = avg_daily, metric_score = c_score,
                           metric_label = MessagesPerDay avg_daily \<rparr>,
                       sentiment =
                         \<lparr> metric_value = avg_sent, metric_score = s_score,
                           metric_label = ToneLabel (sentiment_label avg_sent) \<rparr>,
                       balance =
                         \<lparr> metric_value = balance_pct, metric_score = b_score,
                           metric_label = PercentBalance balance_pct \<rparr> \<rparr>,
           recommendations = recs,
           report_date = today \<rparr>)"

text \<open>
  \<open>analyze_team_communication\<close> on the cleaned frame; \<open>today\<close> is the date stamp that
  the source takes from the clock. \<open>Inl\<close> is an exception leaving the function.
\<close>

definition analyze_team_communication ::
  "(string \<Rightarrow> 'e + real) \<Rightarrow> string \<Rightarrow> message_record list \<Rightarrow> 'e + report" where
  "analyze_team_communication textblob today df =
     (case apply_series (get_sentiment textblob) (map message df) of
        Inl e \<Rightarrow> Inl e
      | Inr sentiments \<Rightarrow> Inr (build_report today df sentiments))"

section \<open>Reference definitions\<close>

text \<open>
  What the sentiment column holds for one text according to the specification: the
  polarity, or \<open>0\<close> where the capability raises.
\<close>

definition recovered_polarity :: "(string \<Rightarrow> 'e + real) \<Rightarrow> string \<Rightarrow> real" where
  "recovered_polarity textblob text = (case textblob text of Inr p \<Rightarrow> p | Inl e \<Rightarrow> 0)"

text \<open>
  The warnings as the specification lists them: one entry per threshold rule that
  fires, in the order activity, tone, balance.
\<close>

definition fired_warnings :: "pyfloat \<Rightarrow> pyfloat \<Rightarrow> pyfloat \<Rightarrow> advice list" where
  "fired_warnings avg_daily avg_sent part_std =
     (if fl_lt avg_daily (Fin 5) then [LowFrequency] else [])
     @ (if fl_lt avg_sent (Fin (1 / 10)) then [FlatTone] else [])
     @ (if fl_gt part_std (Fin (3 / 10)) then [UnevenParticipation] else [])"

text \<open>
  The daily activity as the specification words it: the calendar day of a row is the
  day its timestamp falls on; every calendar day from the earliest to the latest one
  gets the number of rows of that day, zero included; the average is the mean of these
  counts, rounded to one decimal.
\<close>

definition calendar_day :: "message_record \<Rightarrow> int" where
  "calendar_day r = date r div ns_per_day"

definition spec_daily_counts :: "message_record list \<Rightarrow> nat list" where
  "spec_daily_counts df =
     (let days = map calendar_day df
      in map (\<lambda>d. count_list days d) [Min (set days)..Max (set days)])"

definition spec_avg_daily_messages :: "message_record list \<Rightarrow> real" where
  "spec_avg_daily_messages df =
     (let counts = spec_daily_counts df
      in py_round (sum_list (map real counts) / real (length counts)) 1)"

text \<open>
  The sample standard deviation of the message shares as the specification words it:
  the senders are the members that appear in the frame, the share of a sender is the
  fraction of the rows that are theirs, and the deviation of the shares around their
  mean has the divisor \<open>n - 1\<close>, with no value for fewer than two senders.
\<close>

definition senders :: "message_record list \<Rightarrow> string set" where
  "senders df = set (map member_id df)"

definition share :: "message_record list \<Rightarrow> string \<Rightarrow> real" where
  "share df m = real (count_list (map member_id df) m) / real (length df)"

definition sample_std_of_shares :: "message_record list \<Rightarrow> pyfloat" where
  "sample_std_of_shares df =
     (let n = card (senders df);
          mu = (\<Sum>m \<in> senders df. share df m) / real n
      in if n \<le> 1 then NaN
         else Fin (sqrt ((\<Sum>m \<in> senders df. (share df m - mu)\<^sup>2) / real (n - 1))))"

section \<open>Sample data\<close>

definition row_ann :: message_record where
  "row_ann = \<lparr> date = 0, channel = ''general'', member_id = ''ann'', message = ''hello'' \<rparr>"

definition row_bob :: message_record where
  "row_bob = \<lparr> date = 172800000000001, channel = ''dev'', member_id = ''bob'', message = ''bad'' \<rparr>"

text \<open>A polarity capability that raises on the text \<open>bad\<close> and answers \<open>-0.1\<close> otherwise.\<close>

definition sample_textblob :: "string \<Rightarrow> unit + real" where
  "sample_textblob text = (if text = ''bad'' then Inl () else Inr (- 1 / 10))"

definition row_ann_later :: message_record where
  "row_ann_later = \<lparr> date = 3600000000000, channel = ''random'', member_id = ''ann'', message = ''thanks'' \<rparr>"

definition row_cat :: message_record where
  "row_cat = \<lparr> date = 86400000000000, channel = ''general'', member_id = ''cat'', message = ''great'' \<rparr>"

text \<open>A polarity capability that answers \<open>0.5\<close> for every text.\<close>

definition cheerful_textblob :: "string \<Rightarrow> unit + real" where
  "cheerful_textblob text = Inr (1 / 2)"

text \<open>The first sample row, posted in another channel.\<close>

definition row_ann_elsewhere :: message_record where
  "row_ann_elsewhere = \<lparr> date = 0, channel = ''standup'', member_id = ''ann'', message = ''hello'' \<rparr>"

text \<open>
  Two messages of one member, three days apart, and a polarity capability that answers
  \<open>0.21\<close> for every text: the scores are 1, 60.5 and 0, and the binary sum of the
  weighted scores lies just below 18.55.
\<close>

definition row_dan :: message_record where
  "row_dan = \<lparr> date = 0, channel = ''general'', member_id = ''dan'', message = ''fine'' \<rparr>"

definition row_dan_later :: message_record where
  "row_dan_later = \<lparr> date = 259200000000000, channel = ''general'', member_id = ''dan'', message = ''fine'' \<rparr>"

definition mild_textblob :: "string \<Rightarrow> unit + real" where
  "mild_textblob text = Inr (21 / 100)"

section \<open>Rounding and clamping\<close>

lemma round_half_even_floor: "\<lfloor>x\<rfloor> \<le> round_half_even x"
  by (simp add: round_half_even_def Let_def)

lemma round_half_even_ceiling: "round_half_even x \<le> \<lceil>x\<rceil>"
proof (cases "x = of_int \<lfloor>x\<rfloor>")
  case True
  then have "x - of_int \<lfloor>x\<rfloor> = 0" by simp
  then have "round_half_even x = \<lfloor>x\<rfloor>"
    by (simp add: round_half_even_def Let_def)
  then show ?thesis by (simp add: floor_le_ceiling)
next
  case False
  then have "\<lceil>x\<rceil> = \<lfloor>x\<rfloor> + 1"
    by (metis ceiling_altdef)
  then show ?thesis
    by (simp add: round_half_even_def Let_def)
qed

lemma round_half_even_ge: "of_int k \<le> x \<Longrightarrow> k \<le> round_half_even x"
proof -
  assume "of_int k \<le> x"
  then have "k \<le> \<lfloor>x\<rfloor>" by (simp add: le_floor_iff)
  with round_half_even_floor [of x] show ?thesis by linarith
qed

lemma round_half_even_le: "x \<le> of_int k \<Longrightarrow> round_half_even x \<le> k"
proof -
  assume "x \<le> of_int k"
  then have "\<lceil>x\<rceil> \<le> k" by (simp add: ceiling_le_iff)
  with round_half_even_ceiling [of x] show ?thesis by linarith
qed

lemma clamp_cases:
  "py_min (Fin 100) (py_max (Fin 0) x) =
     (case x of NaN \<Rightarrow> Fin 0 | Fin v \<Rightarrow> Fin (if v \<le> 0 then 0 else if v < 100 then v else 100))"
  by (cases x) (auto simp: py_min_def py_max_def)

lemma clamp_range: "\<exists>v. py_min (Fin 100) (py_max (Fin 0) x) = Fin v \<and> 0 \<le> v \<and> v \<le> 100"
  by (cases x) (auto simp: py_min_def py_max_def)

section \<open>Binary64 rounding\<close>

lemma round_half_even_mono: "x \<le> y \<Longrightarrow> round_half_even x \<le> round_half_even y"
proof -
  assume xy: "x \<le> y"
  then have f: "\<lfloor>x\<rfloor> \<le> \<lfloor>y\<rfloor>" by (rule floor_mono)
  show ?thesis
  proof (cases "\<lfloor>x\<rfloor> = \<lfloor>y\<rfloor>")
    case True
    with xy show ?thesis by (auto simp: round_half_even_def Let_def)
  next
    case False
    with f have "\<lfloor>x\<rfloor> + 1 \<le> \<lfloor>y\<rfloor>" by simp
    moreover have "round_half_even x \<le> \<lfloor>x\<rfloor> + 1"
      by (simp add: round_half_even_def Let_def)
    ultimately show ?thesis using round_half_even_floor [of y] by linarith
  qed
qed

lemma bit_length_bounds:
  "0 < n \<Longrightarrow> 2 ^ (bit_length n - 1) \<le> n \<and> n < 2 ^ bit_length n"
proof (induction n rule: bit_length.induct)
  case (1 n)
  show ?case
  proof (cases "n div 2 = 0")
    case True
    with "1.prems" have "n = 1" by (simp add: div_eq_0_iff)
    moreover have "bit_length 1 = 1"
      by (simp add: bit_length.simps [of "Suc 0"] bit_length.simps [of 0])
    ultimately show ?thesis by simp
  next
    case False
    then have h: "0 < n div 2" by simp
    from "1.prems" have n0: "n \<noteq> 0" by simp
    from "1.IH" [OF n0 h] have ih: "2 ^ (bit_length (n div 2) - 1) \<le> n div 2"
      "n div 2 < 2 ^ bit_length (n div 2)" by simp_all
    from h have pos: "0 < bit_length (n div 2)" by (simp add: bit_length.simps [of "n div 2"])
    have bl: "bit_length n = Suc (bit_length (n div 2))" using n0 by (simp add: bit_length.simps [of n])
    have "2 ^ (bit_length n - 1) = 2 * 2 ^ (bit_length (n div 2) - 1)"
      using pos bl by (cases "bit_length (n div 2)") simp_all
    also have "\<dots> \<le> 2 * (n div 2)" using ih(1) by simp
    also have "\<dots> \<le> n" by simp
    finally have lo: "2 ^ (bit_length n - 1) \<le> n" .
    have "n < 2 * (n div 2) + 2" by presburger
    also have "\<dots> \<le> 2 * 2 ^ bit_length (n div 2)" using ih(2) by simp
    also have "\<dots> = 2 ^ bit_length n" by (simp add: bl)
    finally have "n < 2 ^ bit_length n" .
    with lo show ?thesis by (rule conjI)
  qed
qed


lemma binade_bounds:
  assumes "0 < x"
  shows "2 powi binade x \<le> x" and "x < 2 powi (binade x + 1)"
proof -
  have "2 powi binade x \<le> x \<and> x < 2 powi (binade x + 1)"
  proof (cases "1 \<le> x")
    case True
    define n where "n = nat \<lfloor>x\<rfloor>"
    from True have fl: "1 \<le> \<lfloor>x\<rfloor>" by (simp add: le_floor_iff)
    then have rn: "real n = of_int \<lfloor>x\<rfloor>" by (simp add: n_def)
    have n: "0 < n" "real n \<le> x" "x < real n + 1"
      using fl rn by (simp_all add: n_def)
    define l where "l = bit_length n"
    from bit_length_bounds [OF n(1)] have b: "2 ^ (l - 1) \<le> n" "n < 2 ^ l"
      by (simp_all add: l_def)
    from b(2) n(1) have lpos: "0 < l" by (cases l) simp_all
    have e: "binade x = int (l - 1)" "binade x + 1 = int l"
      using True assms lpos by (simp_all add: binade_def n_def l_def)
    have "(2::real) ^ (l - 1) \<le> real n" using b(1) by (metis of_nat_le_iff of_nat_numeral of_nat_power)
    then have "2 ^ (l - 1) \<le> x" using n(2) by (rule order_trans)
    then have lo: "2 powi binade x \<le> x" by (simp only: e(1) power_int_of_nat)
    have "n + 1 \<le> 2 ^ l" using b(2) by simp
    then have "real (n + 1) \<le> 2 ^ l" by (metis of_nat_le_iff of_nat_numeral of_nat_power)
    then have "real n + 1 \<le> 2 ^ l" by (simp only: of_nat_add of_nat_1)
    with n(3) have "x < 2 ^ l" by (rule less_le_trans)
    then have "x < 2 powi (binade x + 1)" by (simp only: e(2) power_int_of_nat)
    with lo show ?thesis by (rule conjI)
  next
    case False
    define y where "y = 1 / x"
    from False assms have y1: "1 < y" by (simp add: y_def)
    define m where "m = nat (\<lceil>y\<rceil> - 1)"
    from y1 have c: "2 \<le> \<lceil>y\<rceil>" by (simp add: le_ceiling_iff)
    have rm: "real m = of_int \<lceil>y\<rceil> - 1" using c by (simp add: m_def)
    have m: "0 < m" "real m < y" "y \<le> real m + 1"
    proof -
      show "0 < m" using c by (simp add: m_def)
      show "real m < y" unfolding rm by linarith
      show "y \<le> real m + 1" unfolding rm by linarith
    qed
    define l where "l = bit_length m"
    from bit_length_bounds [OF m(1)] have b: "2 ^ (l - 1) \<le> m" "m < 2 ^ l"
      by (simp_all add: l_def)
    from b(2) m(1) have lpos: "0 < l" by (cases l) simp_all
    have e: "binade x = - int l"
      using False assms by (simp add: binade_def m_def l_def y_def)
    have e1: "binade x + 1 = - int (l - 1)" using lpos by (simp add: e)
    have "(2::real) ^ (l - 1) \<le> real m" using b(1) by (metis of_nat_le_iff of_nat_numeral of_nat_power)
    then have ylo: "2 ^ (l - 1) < y" using m(2) by (rule le_less_trans)
    have "m + 1 \<le> 2 ^ l" using b(2) by simp
    then have "real (m + 1) \<le> 2 ^ l" by (metis of_nat_le_iff of_nat_numeral of_nat_power)
    then have "real m + 1 \<le> 2 ^ l" by (simp only: of_nat_add of_nat_1)
    with m(3) have yhi: "y \<le> 2 ^ l" by (rule order_trans)
    have p1: "(2::real) powi binade x = 1 / 2 ^ l"
      by (simp only: e power_int_minus power_int_of_nat inverse_eq_divide)
    have p2: "(2::real) powi (binade x + 1) = 1 / 2 ^ (l - 1)"
      by (simp only: e1 power_int_minus power_int_of_nat inverse_eq_divide)
    from yhi have "1 \<le> 2 ^ l * x" using assms by (simp add: y_def field_simps)
    then have "1 / 2 ^ l \<le> x" by (simp add: field_simps)
    then have lo: "2 powi binade x \<le> x" by (simp only: p1)
    from ylo have "2 ^ (l - 1) * x < 1" using assms by (simp add: y_def field_simps)
    then have "x < 1 / 2 ^ (l - 1)" by (simp add: field_simps)
    then have "x < 2 powi (binade x + 1)" by (simp only: p2)
    with lo show ?thesis by (rule conjI)
  qed
  then show "2 powi binade x \<le> x" and "x < 2 powi (binade x + 1)" by simp_all
qed

lemma binade_mono:
  assumes "0 < x" "x \<le> y"
  shows "binade x \<le> binade y"
proof (rule ccontr)
  assume "\<not> binade x \<le> binade y"
  then have "binade y + 1 \<le> binade x" by simp
  then have "(2::real) powi (binade y + 1) \<le> 2 powi binade x"
    by (rule power_int_increasing) simp
  moreover have "2 powi binade x \<le> x" using assms(1) by (rule binade_bounds)
  moreover have "y < 2 powi (binade y + 1)" using assms by (intro binade_bounds) simp
  ultimately show False using assms(2) by linarith
qed

lemma ulp_scale:
  "(2::real) powi e / 2 powi (e - 52) = of_int (2 ^ 52)"
  "(2::real) powi (e + 1) / 2 powi (e - 52) = of_int (2 ^ 53)"
proof -
  have "(2::real) powi e = 2 powi (e - 52) * 2 powi 52"
    using power_int_add [of "2::real" "e - 52" 52] by simp
  then show "(2::real) powi e / 2 powi (e - 52) = of_int (2 ^ 52)" by simp
  have "e + 1 = e - 52 + 53" by simp
  then have "(2::real) powi (e + 1) = 2 powi (e - 52 + 53)" by (rule arg_cong)
  also have "\<dots> = 2 powi (e - 52) * 2 powi 53"
    by (rule power_int_add) simp
  finally have "(2::real) powi (e + 1) = 2 powi (e - 52) * 2 powi 53" .
  then show "(2::real) powi (e + 1) / 2 powi (e - 52) = of_int (2 ^ 53)" by simp
qed

lemma f64_lower: 
  assumes "0 < x"
  shows "2 powi binade x \<le> f64 x"
proof -
  define u :: real where "u = 2 powi (binade x - 52)"
  have u: "0 < u" by (simp add: u_def zero_less_power_int)
  have "2 powi binade x / u \<le> x / u"
    using binade_bounds(1) [OF assms] u by (simp add: divide_right_mono)
  then have "of_int (2 ^ 52) \<le> x / u" by (simp only: u_def ulp_scale)
  then have "2 ^ 52 \<le> round_half_even (x / u)" by (rule round_half_even_ge)
  then have "real_of_int (2 ^ 52) \<le> of_int (round_half_even (x / u))"
    by (simp only: of_int_le_iff)
  then have "of_int (2 ^ 52) * u \<le> of_int (round_half_even (x / u)) * u"
    using u by (simp only: mult_le_cancel_right_pos)
  moreover have "of_int (2 ^ 52) * u = 2 powi binade x"
    using ulp_scale(1) [of "binade x"] u by (simp add: u_def field_simps)
  moreover have "f64 x = of_int (round_half_even (x / u)) * u"
    using assms by (simp add: f64_def u_def Let_def)
  ultimately show ?thesis by simp
qed

lemma f64_upper: 
  assumes "0 < x"
  shows "f64 x \<le> 2 powi (binade x + 1)"
proof -
  define u :: real where "u = 2 powi (binade x - 52)"
  have u: "0 < u" by (simp add: u_def zero_less_power_int)
  have "x / u \<le> 2 powi (binade x + 1) / u"
    using binade_bounds(2) [OF assms] u by (simp add: divide_right_mono)
  then have "x / u \<le> of_int (2 ^ 53)" by (simp only: u_def ulp_scale)
  then have "round_half_even (x / u) \<le> 2 ^ 53" by (rule round_half_even_le)
  then have "real_of_int (round_half_even (x / u)) \<le> of_int (2 ^ 53)"
    by (simp only: of_int_le_iff)
  then have "of_int (round_half_even (x / u)) * u \<le> of_int (2 ^ 53) * u"
    using u by (simp only: mult_le_cancel_right_pos)
  moreover have "of_int (2 ^ 53) * u = 2 powi (binade x + 1)"
    using ulp_scale(2) [of "binade x"] u by (simp add: u_def field_simps)
  moreover have "f64 x = of_int (round_half_even (x / u)) * u"
    using assms by (simp add: f64_def u_def Let_def)
  ultimately show ?thesis by simp
qed

lemma f64_nonneg: "0 \<le> x \<Longrightarrow> 0 \<le> f64 x"
proof (cases "x = 0")
  case True
  then show ?thesis by (simp add: f64_def)
next
  case False
  assume "0 \<le> x"
  with False have "0 < x" by simp
  then have "2 powi binade x \<le> f64 x" by (rule f64_lower)
  moreover have "(0::real) < 2 powi binade x" by (simp add: zero_less_power_int)
  ultimately show ?thesis by linarith
qed

lemma f64_mono:
  assumes "0 \<le> x" "x \<le> y"
  shows "f64 x \<le> f64 y"
proof (cases "x = 0")
  case True
  with assms f64_nonneg [of y] show ?thesis by (simp add: f64_def)
next
  case False
  with assms have x: "0 < x" and y: "0 < y" by simp_all
  have le: "binade x \<le> binade y" using x assms(2) by (rule binade_mono)
  show ?thesis
  proof (cases "binade x = binade y")
    case True
    define u :: real where "u = 2 powi (binade x - 52)"
    have u: "0 < u" by (simp add: u_def zero_less_power_int)
    have "x / u \<le> y / u" using assms(2) u by (simp add: divide_right_mono)
    then have "round_half_even (x / u) \<le> round_half_even (y / u)"
      by (rule round_half_even_mono)
    then have "real_of_int (round_half_even (x / u)) * u \<le> of_int (round_half_even (y / u)) * u"
      using u by (simp only: mult_le_cancel_right_pos of_int_le_iff)
    moreover have "f64 x = of_int (round_half_even (x / u)) * u"
      using x by (simp add: f64_def u_def Let_def)
    moreover have "f64 y = of_int (round_half_even (y / u)) * u"
      using y by (simp add: f64_def u_def True Let_def)
    ultimately show ?thesis by simp
  next
    case False
    with le have "binade x + 1 \<le> binade y" by simp
    then have "(2::real) powi (binade x + 1) \<le> 2 powi binade y"
      by (rule power_int_increasing) simp
    with f64_upper [OF x] f64_lower [OF y] show ?thesis by linarith
  qed
qed


lemma f64_values:
  "f64 (4 / 10) = 3602879701896397 / 9007199254740992"
  "f64 (3 / 10) = 5404319552844595 / 18014398509481984"
  "f64 (100 * f64 (4 / 10)) = 40"
  "f64 (100 * f64 (3 / 10)) = 30"
  "f64 (40 + 30) = 70"
  "f64 (70 + 30) = 100"
  "f64 (100 * 10 ^ 1) = 1000"
  "f64 (of_int 1000 / 10 ^ 1) = 100"
  by code_simp+

lemma np_round_range:
  assumes "0 \<le> x" "x \<le> 100"
  shows "0 \<le> np_round x 1" and "np_round x 1 \<le> 100"
proof -
  have "0 \<le> f64 (x * 10 ^ 1)" using assms(1) by (intro f64_nonneg) simp
  then have "of_int 0 \<le> f64 (x * 10 ^ 1)" by simp
  then have "0 \<le> round_half_even (f64 (x * 10 ^ 1))" by (rule round_half_even_ge)
  then have "0 \<le> real_of_int (round_half_even (f64 (x * 10 ^ 1))) / 10 ^ 1" by simp
  then show "0 \<le> np_round x 1" unfolding np_round_def by (rule f64_nonneg)
  have "f64 (x * 10 ^ 1) \<le> f64 (100 * 10 ^ 1)" using assms by (intro f64_mono) simp_all
  then have "f64 (x * 10 ^ 1) \<le> of_int 1000" by (simp only: f64_values)
  then have r: "round_half_even (f64 (x * 10 ^ 1)) \<le> 1000" by (rule round_half_even_le)
  have "0 \<le> real_of_int (round_half_even (f64 (x * 10 ^ 1))) / 10 ^ 1" by fact
  moreover have "real_of_int (round_half_even (f64 (x * 10 ^ 1))) / 10 ^ 1 \<le> of_int 1000 / 10 ^ 1"
    using r by simp
  ultimately have "f64 (real_of_int (round_half_even (f64 (x * 10 ^ 1))) / 10 ^ 1)
      \<le> f64 (of_int 1000 / 10 ^ 1)" by (rule f64_mono)
  then show "np_round x 1 \<le> 100" by (simp only: np_round_def f64_values)
qed

lemma f64_product_range:
  assumes "0 \<le> c" "c \<le> 100" "0 \<le> w"
  shows "0 \<le> f64 (c * w)" and "f64 (c * w) \<le> f64 (100 * w)"
proof -
  from assms show "0 \<le> f64 (c * w)" by (intro f64_nonneg) simp
  from assms show "f64 (c * w) \<le> f64 (100 * w)"
    by (intro f64_mono) (simp_all add: mult_right_mono)
qed

lemma f64_sum_range:
  assumes "0 \<le> a" "a \<le> p" "0 \<le> b" "b \<le> q"
  shows "0 \<le> f64 (a + b)" and "f64 (a + b) \<le> f64 (p + q)"
proof -
  from assms show "0 \<le> f64 (a + b)" by (intro f64_nonneg) simp
  from assms show "f64 (a + b) \<le> f64 (p + q)" by (intro f64_mono) simp_all
qed

lemma weighted_sum_range:
  assumes "0 \<le> c" "c \<le> 100" "0 \<le> s" "s \<le> 100" "0 \<le> b" "b \<le> 100"
  shows "0 \<le> np_round (f64 (f64 (f64 (c * f64 (4 / 10)) + f64 (s * f64 (3 / 10)))
                              + f64 (b * f64 (3 / 10)))) 1"
    and "np_round (f64 (f64 (f64 (c * f64 (4 / 10)) + f64 (s * f64 (3 / 10)))
                              + f64 (b * f64 (3 / 10)))) 1 \<le> 100"
proof -
  have w4: "0 \<le> f64 (4 / 10)" and w3: "0 \<le> f64 (3 / 10)" by (simp_all add: f64_nonneg)
  let ?P = "f64 (c * f64 (4 / 10))"
  let ?Q = "f64 (s * f64 (3 / 10))"
  let ?R = "f64 (b * f64 (3 / 10))"
  have P: "0 \<le> ?P" "?P \<le> 40"
    using f64_product_range [OF assms(1,2) w4] by (simp_all only: f64_values(3))
  have Q: "0 \<le> ?Q" "?Q \<le> 30"
    using f64_product_range [OF assms(3,4) w3] by (simp_all only: f64_values(4))
  have R: "0 \<le> ?R" "?R \<le> 30"
    using f64_product_range [OF assms(5,6) w3] by (simp_all only: f64_values(4))
  have S1: "0 \<le> f64 (?P + ?Q)" "f64 (?P + ?Q) \<le> 70"
    using f64_sum_range [OF P Q] by (simp_all only: f64_values(5))
  have S2: "0 \<le> f64 (f64 (?P + ?Q) + ?R)" "f64 (f64 (?P + ?Q) + ?R) \<le> 100"
    using f64_sum_range [OF S1 R] by (simp_all only: f64_values(6))
  from S2 show "0 \<le> np_round (f64 (f64 (?P + ?Q) + ?R)) 1" by (rule np_round_range)
  from S2 show "np_round (f64 (f64 (?P + ?Q) + ?R)) 1 \<le> 100" by (rule np_round_range)
qed

lemma weighted_total_range:
  assumes "0 \<le> c" "c \<le> 100" "0 \<le> s" "s \<le> 100" "0 \<le> b" "b \<le> 100"
  shows "\<exists>t. weighted_total (Fin c) (Fin s) (Fin b) = Fin t \<and> 0 \<le> t \<and> t \<le> 100
     \<and> t = np_round (f64 (f64 (f64 (c * f64 (4 / 10)) + f64 (s * f64 (3 / 10)))
                             + f64 (b * f64 (3 / 10)))) 1"
  using weighted_sum_range [OF assms] by (simp add: weighted_total_def)

text \<open>The totals of the sample frames.\<close>

lemma weighted_total_values:
  "weighted_total (Fin 2) (Fin 45) (Fin 0) = Fin (f64 (143 / 10))"
  "weighted_total (Fin 4) (Fin 45) (Fin 0) = Fin (f64 (151 / 10))"
  "weighted_total (Fin 10) (Fin 75) (Fin 0) = Fin (265 / 10)"
  "weighted_total (Fin 1) (Fin (121 / 2)) (Fin 0) = Fin (185 / 10)"
  by code_simp+

section \<open>The sentiment column never raises\<close>

lemma apply_series_get_sentiment:
  "apply_series (get_sentiment textblob) texts = Inr (map (recovered_polarity textblob) texts)"
  by (induction texts) (auto simp: get_sentiment_def recovered_polarity_def split: sum.splits)

lemma analyze_eq:
  "analyze_team_communication textblob today df =
     Inr (build_report today df (map (recovered_polarity textblob) (map message df)))"
  by (simp add: analyze_team_communication_def apply_series_get_sentiment)

text \<open>The definitions that evaluating a report on a concrete frame unfolds.\<close>

lemmas eval_defs = analyze_team_communication_def build_report_def get_sentiment_def
   avg_daily_messages_def resample_D_size_def ns_per_day_def mean_def py_round_def round_half_even_def
   avg_sentiment_def participation_balance_def participation_std_def participation_def
   value_counts_normalized_def distinct_values_def std_def communication_score_def sentiment_score_def
   balance_score_def weighted_total_values py_min_def py_max_def generate_recommendations_def
   sentiment_label_def Let_def upto.simps

section \<open>Tone label\<close>

lemma avg_sentiment_finite: "xs \<noteq> [] \<Longrightarrow> \<exists>a. avg_sentiment xs = Fin a"
  by (simp add: avg_sentiment_def mean_def)

lemma sentiment_label_cases:
  "sentiment_label (Fin a) =
     (if 2 / 10 < a then Positive else if - 1 / 10 < a then Neutral else Negative)"
  by (simp add: sentiment_label_def)

text \<open>
  C1, as the code has it. For every non-empty cleaned frame the rounded average
  sentiment is a finite number \<open>a\<close>, and the tone label is positive exactly when
  \<open>a > 0.2\<close>, neutral exactly when \<open>-0.1 < a \<le> 0.2\<close>, and negative exactly when
  \<open>a \<le> -0.1\<close>: the value \<open>0.2\<close> is neutral, the value \<open>-0.1\<close> is negative.
\<close>

theorem sentiment_label_thresholds:
  "df \<noteq> [] \<Longrightarrow>
   \<exists>rep a l. analyze_team_communication textblob today df = Inr rep
     \<and> metric_value (sentiment (metrics rep)) = Fin a
     \<and> metric_label (sentiment (metrics rep)) = ToneLabel l
     \<and> (l = Positive \<longleftrightarrow> 2 / 10 < a)
     \<and> (l = Neutral \<longleftrightarrow> - 1 / 10 < a \<and> a \<le> 2 / 10)
     \<and> (l = Negative \<longleftrightarrow> a \<le> - 1 / 10)"
proof -
  assume "df \<noteq> []"
  then have "map (recovered_polarity textblob \<circ> message) df \<noteq> []" by simp
  then obtain a where a: "avg_sentiment (map (recovered_polarity textblob \<circ> message) df) = Fin a"
    using avg_sentiment_finite by blast
  show ?thesis
    by (simp add: analyze_eq build_report_def Let_def a sentiment_label_cases)
qed

theorem sentiment_label_thresholds_witness:
  "[row_ann] \<noteq> [] \<and>
   (\<exists>rep a l. analyze_team_communication sample_textblob ''2024-05-01'' [row_ann] = Inr rep
     \<and> metric_value (sentiment (metrics rep)) = Fin a
     \<and> metric_label (sentiment (metrics rep)) = ToneLabel l
     \<and> (l = Positive \<longleftrightarrow> 2 / 10 < a)
     \<and> (l = Neutral \<longleftrightarrow> - 1 / 10 < a \<and> a \<le> 2 / 10)
     \<and> (l = Negative \<longleftrightarrow> a \<le> - 1 / 10))"
  using sentiment_label_thresholds [of "[row_ann]" sample_textblob "''2024-05-01''"] by simp

text \<open>
  C1 as stated fails: one message of polarity \<open>-0.1\<close> gives the average \<open>-0.1\<close>, and
  the label of the report is negative, not neutral.
\<close>

theorem sentiment_label_boundary_counterexample:
  "analyze_team_communication sample_textblob ''2024-05-01'' [row_ann] = Inr
     \<lparr> total_score = Fin (f64 (143 / 10)),
       metrics = \<lparr> communication =
                     \<lparr> metric_value = Fin 1, metric_score = Fin 2,
                       metric_label = MessagesPerDay (Fin 1) \<rparr>,
                   sentiment =
                     \<lparr> metric_value = Fin (- 1 / 10), metric_score = Fin 45,
                       metric_label = ToneLabel Negative \<rparr>,
                   balance =
                     \<lparr> metric_value = NaN, metric_score = Fin 0,
                       metric_label = PercentBalance NaN \<rparr> \<rparr>,
       recommendations = [LowFrequency, FlatTone],
       report_date = ''2024-05-01'' \<rparr>"
  by (simp add: eval_defs row_ann_def sample_textblob_def)

section \<open>Sentiment failures\<close>

text \<open>
  C9. For every cleaned frame and every polarity capability, applying \<open>get_sentiment\<close>
  to the message column returns a column (no exception leaves it) that has one entry
  per row; the entry of a row is \<open>0\<close> where the capability raises on the text of that
  row and the polarity of the text everywhere else; the analysis returns the report
  built from this column.
\<close>

theorem sentiment_failure_recovered:
  "\<exists>sentiments.
     apply_series (get_sentiment textblob) (map message df) = Inr sentiments
     \<and> length sentiments = length df
     \<and> (\<forall>i < length df. \<forall>e. textblob (message (df ! i)) = Inl e \<longrightarrow> sentiments ! i = 0)
     \<and> (\<forall>i < length df. \<forall>p. textblob (message (df ! i)) = Inr p \<longrightarrow> sentiments ! i = p)
     \<and> analyze_team_communication textblob today df = Inr (build_report today df sentiments)"
proof -
  let ?s = "map (recovered_polarity textblob) (map message df)"
  have "apply_series (get_sentiment textblob) (map message df) = Inr ?s"
    by (rule apply_series_get_sentiment)
  moreover have "length ?s = length df" by simp
  moreover have "\<forall>i < length df. \<forall>e. textblob (message (df ! i)) = Inl e \<longrightarrow> ?s ! i = 0"
    by (simp add: recovered_polarity_def)
  moreover have "\<forall>i < length df. \<forall>p. textblob (message (df ! i)) = Inr p \<longrightarrow> ?s ! i = p"
    by (simp add: recovered_polarity_def)
  moreover have "analyze_team_communication textblob today df = Inr (build_report today df ?s)"
    by (rule analyze_eq)
  ultimately show ?thesis by blast
qed

theorem sentiment_failure_recovered_witness:
  "sample_textblob (message ([row_ann, row_bob] ! 1)) = Inl ()
   \<and> apply_series (get_sentiment sample_textblob) (map message [row_ann, row_bob]) = Inr [- 1 / 10, 0]
   \<and> analyze_team_communication sample_textblob ''2024-05-01'' [row_ann, row_bob]
       = Inr (build_report ''2024-05-01'' [row_ann, row_bob] [- 1 / 10, 0])"
proof -
  obtain sentiments where
    s: "apply_series (get_sentiment sample_textblob) (map message [row_ann, row_bob]) = Inr sentiments"
    and a: "analyze_team_communication sample_textblob ''2024-05-01'' [row_ann, row_bob]
       = Inr (build_report ''2024-05-01'' [row_ann, row_bob] sentiments)"
    using sentiment_failure_recovered [of sample_textblob "[row_ann, row_bob]" "''2024-05-01''"]
    by blast
  have "apply_series (get_sentiment sample_textblob) (map message [row_ann, row_bob]) = Inr [- 1 / 10, 0]"
    by (simp add: get_sentiment_def sample_textblob_def row_ann_def row_bob_def)
  with s have "sentiments = [- 1 / 10, 0]" by simp
  with s a show ?thesis
    by (simp add: sample_textblob_def row_bob_def)
qed

section \<open>Scores\<close>

lemma communication_score_range:
  "\<exists>v. communication_score a = Fin v \<and> 0 \<le> v \<and> v \<le> 100"
  unfolding communication_score_def by (rule clamp_range)

lemma sentiment_score_range:
  "\<exists>v. sentiment_score a = Fin v \<and> 0 \<le> v \<and> v \<le> 100"
  unfolding sentiment_score_def by (rule clamp_range)

lemma balance_score_range:
  "\<exists>v. balance_score a = Fin v \<and> 0 \<le> v \<and> v \<le> 100"
  unfolding balance_score_def by (rule clamp_range)

text \<open>
  C6. For every non-empty cleaned frame the communication, sentiment and balance scores
  of the report are finite numbers between 0 and 100, whatever the number of messages
  per day and whatever the senders.
\<close>

theorem sub_scores_in_range:
  "df \<noteq> [] \<Longrightarrow>
   \<exists>rep c s b. analyze_team_communication textblob today df = Inr rep
     \<and> metric_score (communication (metrics rep)) = Fin c \<and> 0 \<le> c \<and> c \<le> 100
     \<and> metric_score (sentiment (metrics rep)) = Fin s \<and> 0 \<le> s \<and> s \<le> 100
     \<and> metric_score (balance (metrics rep)) = Fin b \<and> 0 \<le> b \<and> b \<le> 100"
  using communication_score_range sentiment_score_range balance_score_range
  by (simp add: analyze_eq build_report_def Let_def)

theorem sub_scores_in_range_witness:
  "[row_ann, row_ann_later] \<noteq> [] \<and>
   (\<exists>rep c s b. analyze_team_communication sample_textblob ''2024-05-01'' [row_ann, row_ann_later] = Inr rep
     \<and> metric_score (communication (metrics rep)) = Fin c \<and> 0 \<le> c \<and> c \<le> 100
     \<and> metric_score (sentiment (metrics rep)) = Fin s \<and> 0 \<le> s \<and> s \<le> 100
     \<and> metric_score (balance (metrics rep)) = Fin b \<and> 0 \<le> b \<and> b \<le> 100)"
  using sub_scores_in_range [of "[row_ann, row_ann_later]" sample_textblob "''2024-05-01''"] by simp

text \<open>
  C5. For every non-empty cleaned frame the total score of the report is
  \<open>round(communication_score * 0.4 + sentiment_score * 0.3 + balance_score * 0.3, 1)\<close>
  of the three scores of the report, with the weights 0.4, 0.3 and 0.3, evaluated as
  the source evaluates it (binary64 products and sums, then the rounding to one
  decimal), and it lies between 0 and 100.
\<close>

theorem total_score_weighted_sum:
  "df \<noteq> [] \<Longrightarrow>
   \<exists>rep c s b t. analyze_team_communication textblob today df = Inr rep
     \<and> metric_score (communication (metrics rep)) = Fin c
     \<and> metric_score (sentiment (metrics rep)) = Fin s
     \<and> metric_score (balance (metrics rep)) = Fin b
     \<and> total_score rep = Fin t
     \<and> t = np_round (f64 (f64 (f64 (c * f64 (4 / 10)) + f64 (s * f64 (3 / 10)))
                             + f64 (b * f64 (3 / 10)))) 1
     \<and> 0 \<le> t \<and> t \<le> 100"
proof -
  let ?sent = "map (recovered_polarity textblob) (map message df)"
  obtain c where c: "communication_score (avg_daily_messages df) = Fin c" "0 \<le> c" "c \<le> 100"
    using communication_score_range by blast
  obtain s where s: "sentiment_score (avg_sentiment ?sent) = Fin s" "0 \<le> s" "s \<le> 100"
    using sentiment_score_range by blast
  obtain b where b: "balance_score (participation_balance df) = Fin b" "0 \<le> b" "b \<le> 100"
    using balance_score_range by blast
  obtain t where t: "weighted_total (Fin c) (Fin s) (Fin b) = Fin t" "0 \<le> t" "t \<le> 100"
      "t = np_round (f64 (f64 (f64 (c * f64 (4 / 10)) + f64 (s * f64 (3 / 10)))
                          + f64 (b * f64 (3 / 10)))) 1"
    using weighted_total_range [OF c(2,3) s(2,3) b(2,3)] by blast
  have "analyze_team_communication textblob today df = Inr (build_report today df ?sent)"
    by (rule analyze_eq)
  moreover have "metric_score (communication (metrics (build_report today df ?sent))) = Fin c"
    by (simp add: build_report_def Let_def c(1))
  moreover have "metric_score (sentiment (metrics (build_report today df ?sent))) = Fin s"
    using s(1) by (simp add: build_report_def Let_def)
  moreover have "metric_score (balance (metrics (build_report today df ?sent))) = Fin b"
    by (simp add: build_report_def Let_def b(1))
  moreover have "total_score (build_report today df ?sent) = Fin t"
    using c(1) s(1) b(1) t(1) by (simp add: build_report_def Let_def)
  ultimately show ?thesis using t(2,3,4) by blast
qed

theorem total_score_weighted_sum_witness:
  "[row_dan, row_dan_later] \<noteq> []
   \<and> analyze_team_communication mild_textblob ''2024-05-01'' [row_dan, row_dan_later] = Inr
       \<lparr> total_score = Fin (185 / 10),
         metrics = \<lparr> communication =
                       \<lparr> metric_value = Fin (5 / 10), metric_score = Fin 1,
                         metric_label = MessagesPerDay (Fin (5 / 10)) \<rparr>,
                     sentiment =
                       \<lparr> metric_value = Fin (21 / 100), metric_score = Fin (121 / 2),
                         metric_label = ToneLabel Positive \<rparr>,
                     balance =
                       \<lparr> metric_value = NaN, metric_score = Fin 0,
                         metric_label = PercentBalance NaN \<rparr> \<rparr>,
         recommendations = [LowFrequency],
         report_date = ''2024-05-01'' \<rparr>
   \<and> 185 / 10 = np_round (f64 (f64 (f64 (1 * f64 (4 / 10)) + f64 (121 / 2 * f64 (3 / 10)))
                                + f64 (0 * f64 (3 / 10)))) 1"
proof -
  have r: "analyze_team_communication mild_textblob ''2024-05-01'' [row_dan, row_dan_later] = Inr
       \<lparr> total_score = Fin (185 / 10),
         metrics = \<lparr> communication =
                       \<lparr> metric_value = Fin (5 / 10), metric_score = Fin 1,
                         metric_label = MessagesPerDay (Fin (5 / 10)) \<rparr>,
                     sentiment =
                       \<lparr> metric_value = Fin (21 / 100), metric_score = Fin (121 / 2),
                         metric_label = ToneLabel Positive \<rparr>,
                     balance =
                       \<lparr> metric_value = NaN, metric_score = Fin 0,
                         metric_label = PercentBalance NaN \<rparr> \<rparr>,
         recommendations = [LowFrequency],
         report_date = ''2024-05-01'' \<rparr>"
    by (simp add: eval_defs row_dan_def row_dan_later_def mild_textblob_def)
  have "[row_dan, row_dan_later] \<noteq> []" by simp
  from total_score_weighted_sum [OF this, of mild_textblob "''2024-05-01''"]
  obtain rep c s b t where
    h: "analyze_team_communication mild_textblob ''2024-05-01'' [row_dan, row_dan_later] = Inr rep"
      "metric_score (communication (metrics rep)) = Fin c"
      "metric_score (sentiment (metrics rep)) = Fin s"
      "metric_score (balance (metrics rep)) = Fin b"
      "total_score rep = Fin t"
      "t = np_round (f64 (f64 (f64 (c * f64 (4 / 10)) + f64 (s * f64 (3 / 10)))
                          + f64 (b * f64 (3 / 10)))) 1"
    by blast
  from h(1-5) r have "c = 1" "s = 121 / 2" "b = 0" "t = 185 / 10" by auto
  with h(6) have "185 / 10 = np_round (f64 (f64 (f64 (1 * f64 (4 / 10)) + f64 (121 / 2 * f64 (3 / 10)))
                                + f64 (0 * f64 (3 / 10)))) 1" by (simp only:)
  with r show ?thesis by simp
qed

text \<open>
  On that frame the exact weighted sum is 18.55, a tie that rounding to the even digit
  would take to 18.6; the binary sum is below the tie and the report says 18.5.
\<close>

lemma exact_sum_of_tie_frame:
  "py_round (1 * (4 / 10) + 121 / 2 * (3 / 10) + 0 * (3 / 10)) 1 = 186 / 10"
  by (simp add: py_round_def round_half_even_def Let_def)

section \<open>Recommendations\<close>

text \<open>
  C7. For every triple of raw statistics the recommendation list is the list of the
  warnings whose rule fires, in the order activity, tone, balance, when at least one
  fires, and the single fallback message when none does; it is never empty, and the
  fallback message is in it exactly when no rule fires, in which case it is alone.
\<close>

theorem recommendations_rules:
  "generate_recommendations avg_daily avg_sent part_std =
     (if fired_warnings avg_daily avg_sent part_std = [] then [AllGood]
      else fired_warnings avg_daily avg_sent part_std)
   \<and> generate_recommendations avg_daily avg_sent part_std \<noteq> []
   \<and> (AllGood \<in> set (generate_recommendations avg_daily avg_sent part_std)
        \<longleftrightarrow> fired_warnings avg_daily avg_sent part_std = [])
   \<and> (AllGood \<in> set (generate_recommendations avg_daily avg_sent part_std)
        \<longrightarrow> generate_recommendations avg_daily avg_sent part_std = [AllGood])"
  by (simp add: generate_recommendations_def fired_warnings_def Let_def)

theorem recommendations_rules_witness:
  "generate_recommendations (Fin 3) (Fin (1 / 2)) (Fin (4 / 10)) = [LowFrequency, UnevenParticipation]
   \<and> AllGood \<notin> set (generate_recommendations (Fin 3) (Fin (1 / 2)) (Fin (4 / 10)))
   \<and> fired_warnings (Fin 3) (Fin (1 / 2)) (Fin (4 / 10)) \<noteq> []"
  using recommendations_rules [of "Fin 3" "Fin (1 / 2)" "Fin (4 / 10)"]
  by (simp add: fired_warnings_def)

section \<open>A single sender\<close>

text \<open>
  C2 at a frame whose two messages come from one member: the standard deviation of the
  single share is \<open>NaN\<close>, and the value of the balance metric in the report is \<open>NaN\<close>
  (its score is 0).
\<close>

theorem single_sender_balance_value_nan:
  "analyze_team_communication sample_textblob ''2024-05-01'' [row_ann, row_ann_later] = Inr
     \<lparr> total_score = Fin (f64 (151 / 10)),
       metrics = \<lparr> communication =
                     \<lparr> metric_value = Fin 2, metric_score = Fin 4,
                       metric_label = MessagesPerDay (Fin 2) \<rparr>,
                   sentiment =
                     \<lparr> metric_value = Fin (- 1 / 10), metric_score = Fin 45,
                       metric_label = ToneLabel Negative \<rparr>,
                   balance =
                     \<lparr> metric_value = NaN, metric_score = Fin 0,
                       metric_label = PercentBalance NaN \<rparr> \<rparr>,
       recommendations = [LowFrequency, FlatTone],
       report_date = ''2024-05-01'' \<rparr>"
  by (simp add: eval_defs row_ann_def row_ann_later_def sample_textblob_def)

text \<open>
  C3 at a frame of five messages on one day, all from one member and all of polarity
  \<open>0.5\<close>: the balance score is 0, yet the comparison of the \<open>NaN\<close> deviation with
  \<open>0.3\<close> is false, so the uneven-participation warning is absent and the report
  recommends the fallback message alone.
\<close>

theorem single_sender_no_rotation_advice:
  "analyze_team_communication cheerful_textblob ''2024-05-01''
       [row_cat, row_cat, row_cat, row_cat, row_cat] = Inr
     \<lparr> total_score = Fin (265 / 10),
       metrics = \<lparr> communication =
                     \<lparr> metric_value = Fin 5, metric_score = Fin 10,
                       metric_label = MessagesPerDay (Fin 5) \<rparr>,
                   sentiment =
                     \<lparr> metric_value = Fin (1 / 2), metric_score = Fin 75,
                       metric_label = ToneLabel Positive \<rparr>,
                   balance =
                     \<lparr> metric_value = NaN, metric_score = Fin 0,
                       metric_label = PercentBalance NaN \<rparr> \<rparr>,
       recommendations = [AllGood],
       report_date = ''2024-05-01'' \<rparr>"
  by (simp add: eval_defs row_cat_def cheerful_textblob_def)

section \<open>Daily activity\<close>

lemma day_bin_iff:
  fixes t d n :: int
  assumes "0 < n"
  shows "(d * n \<le> t \<and> t < (d + 1) * n) \<longleftrightarrow> t div n = d"
proof -
  define q where "q = t div n"
  define r where "r = t mod n"
  have t: "t = q * n + r" by (simp add: q_def r_def)
  have r: "0 \<le> r" "r < n" using assms by (simp_all add: r_def)
  have e: "(q + 1) * n = q * n + n" "(d + 1) * n = d * n + n" by (simp_all add: algebra_simps)
  have "(d * n \<le> t \<and> t < (d + 1) * n) \<longleftrightarrow> q = d"
  proof
    assume "q = d"
    with t have "t = d * n + r" by simp
    with r e(2) show "d * n \<le> t \<and> t < (d + 1) * n" by simp
  next
    assume b: "d * n \<le> t \<and> t < (d + 1) * n"
    from b have b1: "d * n \<le> q * n + r" and b2: "q * n + r < d * n + n"
      by (simp_all only: t [symmetric] e(2) [symmetric])
    have "d * n < q * n + n" using b1 r(2) by simp
    then have "d * n < (q + 1) * n" by (simp only: e(1))
    then have 1: "d < q + 1" using assms by (simp only: mult_less_cancel_right_pos)
    have "q * n < d * n + n" using b2 r(1) by simp
    then have "q * n < (d + 1) * n" by (simp only: e(2))
    then have 2: "q < d + 1" using assms by (simp only: mult_less_cancel_right_pos)
    from 1 2 show "q = d" by simp
  qed
  then show ?thesis by (simp only: q_def)
qed

lemma Min_le_Max_list: "xs \<noteq> [] \<Longrightarrow> Min (set xs) \<le> (Max (set xs) :: int)"
proof -
  assume "xs \<noteq> []"
  then have "hd xs \<in> set xs" by simp
  then have "Min (set xs) \<le> hd xs" "hd xs \<le> Max (set xs)" by simp_all
  then show ?thesis by (rule order_trans)
qed

lemma bin_count:
  "length (filter (\<lambda>x. d * ns_per_day \<le> date x \<and> date x < (d + 1) * ns_per_day) df)
     = count_list (map calendar_day df) d"
proof -
  have pos: "0 < ns_per_day" by (simp add: ns_per_day_def)
  show ?thesis
    by (induction df) (auto simp: calendar_day_def day_bin_iff [OF pos])
qed

lemma fold_min_Min: "fold min xs (x::int) = Min (set (x # xs))"
  by (simp only: Min.set_eq_fold)

lemma fold_max_Max: "fold max xs (x::int) = Max (set (x # xs))"
  by (simp only: Max.set_eq_fold)

lemma mono_day: "mono (\<lambda>t::int. t div ns_per_day)"
  by (rule monoI) (simp add: zdiv_mono1 ns_per_day_def)

lemma first_day:
  "fold min (map date rs) (date r) div ns_per_day = Min (set (map calendar_day (r # rs)))"
proof -
  have "fold min (map date rs) (date r) = Min (set (map date (r # rs)))"
    by (simp only: fold_min_Min list.map)
  moreover have "Min (set (map date (r # rs))) div ns_per_day
      = Min ((\<lambda>t. t div ns_per_day) ` set (map date (r # rs)))"
    by (rule mono_Min_commute [OF mono_day]) simp_all
  moreover have "(\<lambda>t. t div ns_per_day) ` set (map date (r # rs)) = set (map calendar_day (r # rs))"
    by (auto simp: calendar_day_def)
  ultimately show ?thesis by simp
qed

lemma last_day:
  "fold max (map date rs) (date r) div ns_per_day = Max (set (map calendar_day (r # rs)))"
proof -
  have "fold max (map date rs) (date r) = Max (set (map date (r # rs)))"
    by (simp only: fold_max_Max list.map)
  moreover have "Max (set (map date (r # rs))) div ns_per_day
      = Max ((\<lambda>t. t div ns_per_day) ` set (map date (r # rs)))"
    by (rule mono_Max_commute [OF mono_day]) simp_all
  moreover have "(\<lambda>t. t div ns_per_day) ` set (map date (r # rs)) = set (map calendar_day (r # rs))"
    by (auto simp: calendar_day_def)
  ultimately show ?thesis by simp
qed

lemma resample_spec: "df \<noteq> [] \<Longrightarrow> resample_D_size df = spec_daily_counts df"
proof (cases df)
  case Nil
  assume "df \<noteq> []"
  with Nil show ?thesis by simp
next
  case (Cons r rs)
  show ?thesis
    unfolding Cons resample_D_size_def spec_daily_counts_def Let_def list.case
      first_day last_day bin_count ..
qed

lemma spec_daily_counts_nonempty: "df \<noteq> [] \<Longrightarrow> spec_daily_counts df \<noteq> []"
proof -
  assume "df \<noteq> []"
  then have "map calendar_day df \<noteq> []" by simp
  then have "Min (set (map calendar_day df)) \<le> Max (set (map calendar_day df))"
    by (rule Min_le_Max_list)
  then have "\<not> Max (set (map calendar_day df)) < Min (set (map calendar_day df))"
    by (simp only: not_less)
  then show ?thesis
    unfolding spec_daily_counts_def Let_def
    by (simp only: map_is_Nil_conv upto_Nil not_False_eq_True)
qed

text \<open>
  C8. For every non-empty cleaned frame the average number of daily messages is the
  mean of the per-day message counts over every calendar day from the earliest to the
  latest day of the frame, days without messages counting as zero, rounded to one decimal.
\<close>

theorem avg_daily_messages_calendar_mean:
  "df \<noteq> [] \<Longrightarrow> avg_daily_messages df = Fin (spec_avg_daily_messages df)"
  by (simp add: avg_daily_messages_def resample_spec spec_avg_daily_messages_def Let_def
      mean_def spec_daily_counts_nonempty)

theorem avg_daily_messages_calendar_mean_witness:
  "[row_ann, row_bob] \<noteq> []
   \<and> spec_daily_counts [row_ann, row_bob] = [1, 0, 1]
   \<and> avg_daily_messages [row_ann, row_bob] = Fin (7 / 10)"
proof -
  have c: "spec_daily_counts [row_ann, row_bob] = [1, 0, 1]"
    by (simp add: spec_daily_counts_def calendar_day_def row_ann_def row_bob_def ns_per_day_def
        Let_def upto.simps)
  have "avg_daily_messages [row_ann, row_bob] = Fin (spec_avg_daily_messages [row_ann, row_bob])"
    by (rule avg_daily_messages_calendar_mean) simp
  then show ?thesis
    by (simp add: c spec_avg_daily_messages_def py_round_def round_half_even_def Let_def)
qed

section \<open>Participation shares\<close>

lemma sum_list_insort_key:
  "sum_list (map g (insort_key k x xs)) = g x + sum_list (map g xs)"
  for g :: "'a \<Rightarrow> real"
  by (induction xs) simp_all

lemma sum_list_sort_key:
  "sum_list (map g (sort_key k xs)) = sum_list (map g xs)"
  for g :: "'a \<Rightarrow> real"
  by (induction xs) (simp_all add: sort_key_def sum_list_insort_key)

lemma distinct_values_props:
  "distinct (distinct_values xs)" "set (distinct_values xs) = set xs"
  by (simp_all add: distinct_values_def)

lemma participation_length: "length (participation df) = card (senders df)"
proof -
  have "length (participation df) = length (distinct_values (map member_id df))"
    by (simp add: participation_def value_counts_normalized_def)
  also have "\<dots> = card (set (distinct_values (map member_id df)))"
    by (simp only: distinct_card [OF distinct_values_props(1)])
  finally show ?thesis by (simp only: distinct_values_props(2) senders_def)
qed

lemma participation_sum:
  "sum_list (map h (participation df)) = (\<Sum>m \<in> senders df. h (share df m))"
  for h :: "real \<Rightarrow> real"
proof -
  let ?col = "map member_id df"
  let ?entry = "\<lambda>m. (m, real (count_list ?col m) / real (length ?col))"
  have "sum_list (map h (participation df))
      = sum_list (map (h \<circ> snd) (sort_key (\<lambda>(m, share). - share)
          (map ?entry (distinct_values ?col))))"
    by (simp add: participation_def value_counts_normalized_def)
  also have "\<dots> = sum_list (map (h \<circ> snd) (map ?entry (distinct_values ?col)))"
    by (rule sum_list_sort_key)
  also have "\<dots> = sum_list (map (\<lambda>m. h (share df m)) (distinct_values ?col))"
    by (simp add: share_def o_def)
  also have "\<dots> = (\<Sum>m \<in> set (distinct_values ?col). h (share df m))"
    by (rule sum_list_distinct_conv_sum_set [OF distinct_values_props(1)])
  finally show ?thesis by (simp only: distinct_values_props(2) senders_def)
qed

lemma participation_std_eq: "participation_std df = sample_std_of_shares df"
proof -
  have s: "sum_list (participation df) = (\<Sum>m \<in> senders df. share df m)"
    using participation_sum [of "\<lambda>x. x" df] by simp
  show ?thesis
    unfolding participation_std_def std_def sample_std_of_shares_def Let_def
      participation_length participation_sum s ..
qed

lemma share_pos: "m \<in> senders df \<Longrightarrow> 0 < share df m"
proof -
  assume m: "m \<in> senders df"
  then have "m \<in> set (map member_id df)" by (simp only: senders_def)
  then have "count_list (map member_id df) m \<noteq> 0" by (metis count_list_0_iff)
  then have "0 < count_list (map member_id df) m" by simp
  moreover from m have "df \<noteq> []" by (auto simp: senders_def)
  ultimately show ?thesis by (simp add: share_def)
qed

text \<open>
  C4. The participation deviation is the sample standard deviation (divisor \<open>n - 1\<close>)
  of the message shares of the members that appear in the frame; each of these shares
  is positive, so a member without messages has no entry; for a frame whose messages
  all come from one member the deviation is \<open>NaN\<close>.
\<close>

theorem participation_std_sample_deviation:
  "participation_std df = sample_std_of_shares df
   \<and> (\<forall>m \<in> senders df. 0 < share df m)
   \<and> (card (senders df) = 1 \<longrightarrow> participation_std df = NaN)"
  by (simp add: participation_std_eq share_pos sample_std_of_shares_def)

theorem participation_std_sample_deviation_witness:
  "card (senders [row_ann, row_ann_later]) = 1
   \<and> participation_std [row_ann, row_ann_later] = NaN
   \<and> share [row_ann, row_ann_later] ''ann'' = 1"
proof -
  have c: "card (senders [row_ann, row_ann_later]) = 1"
    by (simp add: senders_def row_ann_def row_ann_later_def)
  with participation_std_sample_deviation [of "[row_ann, row_ann_later]"]
  have "participation_std [row_ann, row_ann_later] = NaN" by blast
  moreover have "share [row_ann, row_ann_later] ''ann'' = 1"
    by (simp add: share_def row_ann_def row_ann_later_def)
  ultimately show ?thesis using c by simp
qed

section \<open>The channel column\<close>

lemma bin_len:
  "length (filter (\<lambda>x. d * n \<le> date x \<and> date x < (d + 1) * n) df)
     = length (filter (\<lambda>t. d * n \<le> t \<and> t < (d + 1) * n) (map date df))"
  by (induction df) simp_all

lemma resample_dates_only:
  assumes "map date df1 = map date df2"
  shows "resample_D_size df1 = resample_D_size df2"
proof (cases df1)
  case Nil
  with assms have "df2 = []" by simp
  with Nil show ?thesis by simp
next
  case (Cons r rs)
  with assms obtain r' rs' where df2: "df2 = r' # rs'"
    and h: "date r = date r'" and t: "map date rs = map date rs'"
    by (cases df2) auto
  have e: "map date (r # rs) = map date (r' # rs')" using h t by simp
  show ?thesis
    unfolding resample_D_size_def Cons df2 list.case Let_def bin_len e h t ..
qed

lemma participation_members_only:
  "map member_id df1 = map member_id df2 \<Longrightarrow> participation df1 = participation df2"
  by (simp add: participation_def)

lemma build_report_columns_only:
  assumes "map date df1 = map date df2" and "map member_id df1 = map member_id df2"
  shows "build_report today df1 sentiments = build_report today df2 sentiments"
proof -
  have "avg_daily_messages df1 = avg_daily_messages df2"
    by (simp only: avg_daily_messages_def resample_dates_only [OF assms(1)])
  moreover have "participation_std df1 = participation_std df2"
    by (simp only: participation_std_def participation_members_only [OF assms(2)])
  moreover from this have "participation_balance df1 = participation_balance df2"
    by (simp only: participation_balance_def)
  ultimately show ?thesis by (simp only: build_report_def)
qed

lemma same_but_channel_columns:
  "list_all2 (\<lambda>a b. b = a\<lparr>channel := channel b\<rparr>) df1 df2 \<Longrightarrow>
   map date df1 = map date df2 \<and> map member_id df1 = map member_id df2
     \<and> map message df1 = map message df2"
proof (induction rule: list_all2_induct)
  case Nil
  show ?case by simp
next
  case (Cons a as b bs)
  from Cons.hyps(1) have "date b = date (a\<lparr>channel := channel b\<rparr>)"
    "member_id b = member_id (a\<lparr>channel := channel b\<rparr>)"
    "message b = message (a\<lparr>channel := channel b\<rparr>)" by simp_all
  then have "date a = date b" "member_id a = member_id b" "message a = message b" by simp_all
  with Cons.IH show ?case by simp
qed

text \<open>
  C10. Two cleaned frames that agree row by row on everything but the channel give the
  same result of the analysis: the same metric values, scores and labels, the same
  total score and the same recommendations.
\<close>

theorem channel_not_used:
  "list_all2 (\<lambda>a b. b = a\<lparr>channel := channel b\<rparr>) df1 df2 \<Longrightarrow>
   analyze_team_communication textblob today df1 = analyze_team_communication textblob today df2"
proof -
  assume "list_all2 (\<lambda>a b. b = a\<lparr>channel := channel b\<rparr>) df1 df2"
  then have c: "map date df1 = map date df2" "map member_id df1 = map member_id df2"
    "map message df1 = map message df2"
    using same_but_channel_columns by blast+
  show ?thesis
    unfolding analyze_team_communication_def c(3)
    by (simp only: build_report_columns_only [OF c(1,2)])
qed

theorem channel_not_used_witness:
  "list_all2 (\<lambda>a b. b = a\<lparr>channel := channel b\<rparr>) [row_ann, row_bob] [row_ann_elsewhere, row_bob]
   \<and> channel row_ann \<noteq> channel row_ann_elsewhere
   \<and> analyze_team_communication sample_textblob ''2024-05-01'' [row_ann, row_bob]
     = analyze_team_communication sample_textblob ''2024-05-01'' [row_ann_elsewhere, row_bob]"
proof -
  have l: "list_all2 (\<lambda>a b. b = a\<lparr>channel := channel b\<rparr>) [row_ann, row_bob] [row_ann_elsewhere, row_bob]"
    by (simp add: row_ann_def row_ann_elsewhere_def)
  have "channel row_ann \<noteq> channel row_ann_elsewhere"
    by (simp add: row_ann_def row_ann_elsewhere_def)
  with l channel_not_used [OF l, of sample_textblob "''2024-05-01''"] show ?thesis by simp
qed

end
